theory Spec2Isabelle
  imports Main "HOL-Library.AList"
begin

section \<open>Data model of sheetcombine.py\<close>

text \<open>
  The script talks to two remote services (the statistics provider and the spreadsheet
  store), prints to the console and sleeps. All of this is made explicit: every remote
  call, print and sleep is appended to a chronological trace, and the answers of the
  remote services are given by an environment that is asked for the answer to the
  k-th call of each kind, so that answers may differ from one call to the next.
\<close>

text \<open>
  A scalar of the provider's JSON or a cell of the sheet: a string, an integer, or a
  float, which is never computed with here and is kept as a decimal numeral that
  denotes it.
\<close>

datatype val = VStr string | VInt int | VFloat string

text \<open>What a remote call does: it raises (with the text of the exception) or returns.\<close>

datatype 'a outcome = Raises string | Returns 'a

text \<open>
  The exceptions met in the script: one raised inside an external library (with its
  text), and those raised by the statements of the script itself.
\<close>

datatype exn =
    ExternalError string
  | IndexError
  | AttributeError
  | UnboundLocalError

text \<open>
  One entry of the roster listing; the script reads the keys \<open>fullName\<close> and \<open>id\<close>
  (the latter is called \<open>pid\<close> here, \<open>id\<close> being the identity function of HOL).
\<close>

record player =
  fullName :: string
  pid :: int

text \<open>
  The \<open>stats\<close> entry of one statistics group of \<open>player_stat_data\<close>: a dictionary
  in the provider's schema; anything else has no \<open>get\<close> method.
\<close>

datatype stats_field = Dict "(string \<times> val) list" | NotDict

text \<open>The lines printed by the script, with the values interpolated into them.\<close>

datatype message =
    IdError string string
  | StatsError int nat exn
  | Cleared
  | ClearFailed string
  | Updated
  | UpdateFailed string

datatype event =
    ScheduleFetch string string
  | RosterFetch int
  | StatsRequest int int
  | SheetClear
  | SheetUpdate "string list" "val list list"
  | Print message
  | Sleep nat

record game =
  game_id :: int
  away_name :: string
  home_name :: string
  away_probable_pitcher :: "string option"
  home_probable_pitcher :: "string option"

text \<open>
  The environment of a run. \<open>schedule\<close> is \<open>statsapi.schedule\<close> (line 72), in whose
  result every game has an id and two team names, and a pitcher name may be missing or
  empty. \<open>sports_players k season\<close> is the answer to the roster request of line 38
  (with its \<open>['people']\<close> subscript) when \<open>k\<close> roster requests were made before it.
  \<open>player_stat_data k player_id season\<close> is the answer to the request of lines 51 to 57
  when \<open>k\<close> such requests were made before it: the list \<open>data['stats']\<close>, each group
  given by its \<open>stats\<close> entry. \<open>build_service\<close> stands for lines 126 to 130,
  \<open>to_values\<close> for the data-frame library on lines 142 to 155, \<open>values_clear\<close> and
  \<open>values_update\<close> for the two calls to the spreadsheet store.
\<close>

record env =
  schedule :: "string \<Rightarrow> string \<Rightarrow> game list outcome"
  sports_players :: "nat \<Rightarrow> int \<Rightarrow> player list outcome"
  player_stat_data :: "nat \<Rightarrow> int \<Rightarrow> int \<Rightarrow> stats_field list outcome"
  build_service :: "unit outcome"
  to_values :: "val list list \<Rightarrow> val list list outcome"
  values_clear :: "unit outcome"
  values_update :: "unit outcome"

record world =
  cache_player_ids :: "(string \<times> int) list"
  trace :: "event list"

definition emit :: "event \<Rightarrow> world \<Rightarrow> world" where
  "emit e w = w\<lparr>trace := trace w @ [e]\<rparr>"

fun is_roster_fetch :: "event \<Rightarrow> bool" where
  "is_roster_fetch (RosterFetch season) = True"
| "is_roster_fetch e = False"

fun is_stats_request :: "event \<Rightarrow> bool" where
  "is_stats_request (StatsRequest player_id season) = True"
| "is_stats_request e = False"

fun is_sheet_call :: "event \<Rightarrow> bool" where
  "is_sheet_call SheetClear = True"
| "is_sheet_call (SheetUpdate hs rows) = True"
| "is_sheet_call e = False"

definition roster_fetches :: "world \<Rightarrow> nat" where
  "roster_fetches w = length (filter is_roster_fetch (trace w))"

definition stats_requests :: "world \<Rightarrow> nat" where
  "stats_requests w = length (filter is_stats_request (trace w))"

text \<open>Python's \<open>d.get(key, default)\<close> on a dictionary kept as an association list.\<close>

definition dict_get :: "(string \<times> val) list \<Rightarrow> string \<Rightarrow> val \<Rightarrow> val" where
  "dict_get d key dflt = (case map_of d key of None \<Rightarrow> dflt | Some v \<Rightarrow> v)"

section \<open>Identifier resolver: \<open>get_player_id\<close> (lines 32 to 45)\<close>

text \<open>
  The \<open>for player in players\<close> loop of lines 39 to 42: the first entry whose full name
  is the given name is stored in the cache and returned; falling off the end of the loop
  reaches \<open>return None\<close>.
\<close>

fun find_player :: "player list \<Rightarrow> string \<Rightarrow> world \<Rightarrow> int option \<times> world" where
  "find_player [] player_name w = (None, w)"
| "find_player (player # players) player_name w =
     (if fullName player = player_name
      then (Some (pid player),
            w\<lparr>cache_player_ids := AList.update player_name (pid player) (cache_player_ids w)\<rparr>)
      else find_player players player_name w)"

text \<open>
  The cache is consulted by name only. On a miss the roster of the season is fetched
  once; an exception of the fetch is caught, printed, and the function returns \<open>None\<close>.
\<close>

definition get_player_id :: "env \<Rightarrow> string \<Rightarrow> int \<Rightarrow> world \<Rightarrow> int option \<times> world" where
  "get_player_id env player_name season w =
     (case map_of (cache_player_ids w) player_name of
        Some i \<Rightarrow> (Some i, w)
      | None \<Rightarrow>
          (case sports_players env (roster_fetches w) season of
             Raises e \<Rightarrow>
               (None, emit (Print (IdError player_name e)) (emit (RosterFetch season) w))
           | Returns players \<Rightarrow>
               find_player players player_name (emit (RosterFetch season) w)))"

section \<open>Statistics retriever: \<open>get_player_stats\<close> (lines 48 to 68)\<close>

definition relevant_keys :: "string list" where
  "relevant_keys =
     [''era'', ''whip'', ''strikeoutsPer9Inn'', ''walksPer9Inn'',
      ''hitsPer9Inn'', ''runsScoredPer9'', ''homeRunsPer9'',
      ''inningsPitched'', ''gamesStarted'']"

text \<open>The handler of lines 65 to 67: print the error with the attempt number, sleep 2 s.\<close>

definition handle_attempt_error :: "int \<Rightarrow> nat \<Rightarrow> exn \<Rightarrow> world \<Rightarrow> world" where
  "handle_attempt_error player_id attempt e w =
     emit (Sleep 2000) (emit (Print (StatsError player_id (attempt + 1) e)) w)"

text \<open>
  The \<open>for attempt in range(retries)\<close> loop and the statement after it. The local
  variable \<open>relevant_keys\<close> is assigned inside the \<open>try\<close> block, on line 59, after the
  request (line 51) and after \<open>data['stats'][0]['stats']\<close> (line 58). The flag
  \<open>bound\<close> records whether that assignment has been executed: an attempt that raises
  on line 51 or 58 leaves it as it was, an attempt that raises on line 64 (the
  \<open>stats\<close> entry has no \<open>get\<close>) has executed it. Line 68 reads the variable, which
  raises \<open>UnboundLocalError\<close> when it was never assigned.
\<close>

fun attempt_loop ::
  "env \<Rightarrow> int \<Rightarrow> int \<Rightarrow> nat list \<Rightarrow> bool \<Rightarrow> world \<Rightarrow> (exn + (string \<times> val) list) \<times> world" where
  "attempt_loop env player_id season [] bound w =
     (if bound then Inr (map (\<lambda>key. (key, VStr '''')) relevant_keys)
      else Inl UnboundLocalError, w)"
| "attempt_loop env player_id season (attempt # rest) bound w =
     (case player_stat_data env (stats_requests w) player_id season of
        Raises e \<Rightarrow>
          attempt_loop env player_id season rest bound
            (handle_attempt_error player_id attempt (ExternalError e)
              (emit (StatsRequest player_id season) w))
      | Returns groups \<Rightarrow>
          (case groups of
             [] \<Rightarrow>
               attempt_loop env player_id season rest bound
                 (handle_attempt_error player_id attempt IndexError
                   (emit (StatsRequest player_id season) w))
           | stats # others \<Rightarrow>
               (case stats of
                  Dict d \<Rightarrow>
                    (Inr (map (\<lambda>key. (key, dict_get d key (VStr ''''))) relevant_keys),
                     emit (StatsRequest player_id season) w)
                | NotDict \<Rightarrow>
                    attempt_loop env player_id season rest True
                      (handle_attempt_error player_id attempt AttributeError
                        (emit (StatsRequest player_id season) w)))))"

text \<open>\<open>range(retries)\<close> is empty for a budget of zero or less.\<close>

definition get_player_stats ::
  "env \<Rightarrow> int \<Rightarrow> int \<Rightarrow> int \<Rightarrow> world \<Rightarrow> (exn + (string \<times> val) list) \<times> world" where
  "get_player_stats env player_id season retries w =
     attempt_loop env player_id season [0..<nat retries] False w"

section \<open>Row assembler: \<open>process_game_data\<close> (lines 75 to 110)\<close>

text \<open>The module-level constant of line 14.\<close>

definition season :: int where
  "season = 2025"

text \<open>The list literal of lines 103 and 105.\<close>

definition row_keys :: "string list" where
  "row_keys =
     [''era'', ''whip'', ''strikeoutsPer9Inn'', ''walksPer9Inn'', ''hitsPer9Inn'',
      ''runsScoredPer9'', ''homeRunsPer9'', ''inningsPitched'', ''gamesStarted'']"

text \<open>
  Lines 84 to 87 for the away side and lines 89 to 92 for the home side are the same
  statements on different variables: starting from the empty dictionary, a non-empty
  name is resolved, and a truthy identifier (neither \<open>None\<close> nor \<open>0\<close>) is looked up
  with the default budget of 3. An exception of \<open>get_player_stats\<close> is not caught.
\<close>

definition enrich_side :: "env \<Rightarrow> string \<Rightarrow> world \<Rightarrow> (exn + (string \<times> val) list) \<times> world" where
  "enrich_side env pitcher_name w =
     (if pitcher_name \<noteq> [] then
        (case get_player_id env pitcher_name season w of
           (player_id, w1) \<Rightarrow>
             (case player_id of
                None \<Rightarrow> (Inr [], w1)
              | Some i \<Rightarrow>
                  if i \<noteq> 0 then get_player_stats env i season 3 w1 else (Inr [], w1)))
      else (Inr [], w))"

text \<open>\<open>game.get(key, '')\<close> on the two optional keys.\<close>

definition pitcher_name_of :: "string option \<Rightarrow> string" where
  "pitcher_name_of n = (case n of None \<Rightarrow> [] | Some s \<Rightarrow> s)"

text \<open>One iteration of the loop of line 77: the row of a game, then a pause of 0.5 s.\<close>

definition process_game :: "env \<Rightarrow> game \<Rightarrow> world \<Rightarrow> (exn + val list) \<times> world" where
  "process_game env g w =
     (case enrich_side env (pitcher_name_of (away_probable_pitcher g)) w of
        (Inl e, w1) \<Rightarrow> (Inl e, w1)
      | (Inr away_stats, w1) \<Rightarrow>
          (case enrich_side env (pitcher_name_of (home_probable_pitcher g)) w1 of
             (Inl e, w2) \<Rightarrow> (Inl e, w2)
           | (Inr home_stats, w2) \<Rightarrow>
               (Inr ([VInt (game_id g), VStr (away_name g), VStr (home_name g),
                      VStr (pitcher_name_of (away_probable_pitcher g)),
                      VStr (pitcher_name_of (home_probable_pitcher g))]
                     @ map (\<lambda>key. dict_get away_stats key (VStr '''')) row_keys
                     @ map (\<lambda>key. dict_get home_stats key (VStr '''')) row_keys),
                emit (Sleep 500) w2)))"

fun process_games ::
  "env \<Rightarrow> game list \<Rightarrow> val list list \<Rightarrow> world \<Rightarrow> (exn + val list list) \<times> world" where
  "process_games env [] data w = (Inr data, w)"
| "process_games env (g # games) data w =
     (case process_game env g w of
        (Inl e, w1) \<Rightarrow> (Inl e, w1)
      | (Inr row, w1) \<Rightarrow> process_games env games (data @ [row]) w1)"

definition process_game_data :: "env \<Rightarrow> game list \<Rightarrow> world \<Rightarrow> (exn + val list list) \<times> world" where
  "process_game_data env games w = process_games env games [] w"

section \<open>Sheet writer (lines 113 to 167) and the main program\<close>

text \<open>The clear call has its own handler: whether it raises or not, the function returns.\<close>

definition clear_google_sheet_range :: "env \<Rightarrow> world \<Rightarrow> world" where
  "clear_google_sheet_range env w =
     (case values_clear env of
        Raises e \<Rightarrow> emit (Print (ClearFailed e)) (emit SheetClear w)
      | Returns u \<Rightarrow> emit (Print Cleared) (emit SheetClear w))"

definition headers :: "string list" where
  "headers =
     [''Game ID'', ''Away Team'', ''Home Team'', ''Away Pitcher'', ''Home Pitcher'',
      ''Away ERA'', ''Away WHIP'', ''Away K/9'', ''Away BB/9'', ''Away H/9'', ''Away R/9'',
      ''Away HR/9'', ''Away IP'', ''Away GS'',
      ''Home ERA'', ''Home WHIP'', ''Home K/9'', ''Home BB/9'', ''Home H/9'', ''Home R/9'',
      ''Home HR/9'', ''Home IP'', ''Home GS'']"

text \<open>
  Loading the credentials and building the service (lines 126 to 130) is outside every
  handler, and so is the conversion of the rows by the data-frame library (lines 142 to
  155), which the environment answers with \<open>to_values\<close>: the rows as they are read back
  from the frame, or the exception of the library. The body of the update is the header
  row followed by these rows. What the library answers on the tables of the row assembler
  is modelled by \<open>df_values\<close> below.
\<close>

definition write_to_google_sheets :: "env \<Rightarrow> val list list \<Rightarrow> world \<Rightarrow> (exn + unit) \<times> world" where
  "write_to_google_sheets env data w =
     (case build_service env of
        Raises e \<Rightarrow> (Inl (ExternalError e), w)
      | Returns u \<Rightarrow>
          (case to_values env data of
             Raises e \<Rightarrow> (Inl (ExternalError e), clear_google_sheet_range env w)
           | Returns rows \<Rightarrow>
               (case values_update env of
                  Raises e \<Rightarrow>
                    (Inr (),
                     emit (Print (UpdateFailed e))
                       (emit (SheetUpdate headers rows) (clear_google_sheet_range env w)))
                | Returns u \<Rightarrow>
                    (Inr (),
                     emit (Print Updated)
                       (emit (SheetUpdate headers rows) (clear_google_sheet_range env w))))))"

definition fetch_schedule :: "env \<Rightarrow> string \<Rightarrow> string \<Rightarrow> world \<Rightarrow> game list outcome \<times> world" where
  "fetch_schedule env start_date end_date w =
     (schedule env start_date end_date, emit (ScheduleFetch start_date end_date) w)"

text \<open>Lines 170 to 173; nothing follows the call of the sheet writer.\<close>

definition main :: "env \<Rightarrow> string \<Rightarrow> string \<Rightarrow> world \<Rightarrow> (exn + unit) \<times> world" where
  "main env start_date end_date w =
     (case fetch_schedule env start_date end_date w of
        (Raises e, w1) \<Rightarrow> (Inl (ExternalError e), w1)
      | (Returns games, w1) \<Rightarrow>
          (case process_game_data env games w1 of
             (Inl e, w2) \<Rightarrow> (Inl e, w2)
           | (Inr enriched_data, w2) \<Rightarrow> write_to_google_sheets env enriched_data w2))"

section \<open>The numeric coercion of the sheet writer (lines 142 to 155)\<close>

text \<open>The list of column names of lines 145 to 148.\<close>

definition numeric_columns :: "string list" where
  "numeric_columns =
     [''Away ERA'', ''Away WHIP'', ''Away K/9'', ''Away BB/9'', ''Away H/9'', ''Away R/9'',
      ''Away HR/9'', ''Away IP'', ''Away GS'',
      ''Home ERA'', ''Home WHIP'', ''Home K/9'', ''Home BB/9'', ''Home H/9'', ''Home R/9'',
      ''Home HR/9'', ''Home IP'', ''Home GS'']"

text \<open>
  The spec calls a value numeric or non-numeric without saying which strings are
  numeric. Here a numeric string is a decimal numeral: an optional sign, then digits
  with at most one decimal point and at least one digit. A value that is a number
  already is numeric.
\<close>

definition is_digit :: "char \<Rightarrow> bool" where
  "is_digit c = (c \<in> set ''0123456789'')"

definition unsigned :: "string \<Rightarrow> string" where
  "unsigned s =
     (case s of
        [] \<Rightarrow> []
      | c # cs \<Rightarrow> if c = CHR ''-'' \<or> c = CHR ''+'' then cs else s)"

definition is_numeral :: "string \<Rightarrow> bool" where
  "is_numeral s =
     (case dropWhile is_digit (unsigned s) of
        [] \<Rightarrow> takeWhile is_digit (unsigned s) \<noteq> []
      | c # frac \<Rightarrow>
          c = CHR ''.'' \<and> list_all is_digit frac
          \<and> takeWhile is_digit (unsigned s) @ frac \<noteq> [])"

fun numeric :: "val \<Rightarrow> bool" where
  "numeric (VStr s) = is_numeral s"
| "numeric (VInt n) = True"
| "numeric (VFloat x) = True"

fun is_number :: "val \<Rightarrow> bool" where
  "is_number (VStr s) = False"
| "is_number (VInt n) = True"
| "is_number (VFloat x) = True"

text \<open>
  Modelled from the spec: \<open>pd.to_numeric\<close> with \<open>errors='coerce'\<close> (line 149), a function
  of the data-frame library, which is not in the repository. The spec says that the
  known numeric columns are converted to numeric type, that the value \<open>"3.45"\<close> becomes
  the number 3.45, and that non-numeric values are coerced to blank. So a numeric
  string becomes the float that it denotes, a number stays what it is, and any other
  value has no number: the result \<open>None\<close> stands for the library's missing value. The
  conversion is modelled cell by cell; that the library gives all the numbers of one
  column one common type is left out.
\<close>

fun to_numeric :: "val \<Rightarrow> val option" where
  "to_numeric (VStr s) = (if is_numeral s then Some (VFloat s) else None)"
| "to_numeric (VInt n) = Some (VInt n)"
| "to_numeric (VFloat x) = Some (VFloat x)"

text \<open>
  Modelled from the spec: \<open>DataFrame.fillna("")\<close> (line 152) of the same library, on one
  cell: a missing value becomes the empty string, which the spec calls blank, and any
  other cell is kept.
\<close>

definition fillna :: "val option \<Rightarrow> val" where
  "fillna c = (case c of None \<Rightarrow> VStr [] | Some v \<Rightarrow> v)"

text \<open>
  Line 149 of the script: \<open>to_numeric\<close> is applied to the columns whose header is in
  \<open>numeric_columns\<close>, and the cells of the other columns are left as they are.
\<close>

definition coerce_cell :: "string \<Rightarrow> val \<Rightarrow> val option" where
  "coerce_cell header v = (if header \<in> set numeric_columns then to_numeric v else Some v)"

text \<open>
  Modelled from the spec: the frame that \<open>pd.DataFrame(data, columns=headers)\<close> builds
  (line 142) and \<open>df.values.tolist()\<close> reads back (line 155), for rows of 23 fields as
  the row assembler produces them: the cell of a row under the j-th header is the j-th
  field of the row. Each cell is coerced under its header and then filled.
\<close>

definition df_row :: "val list \<Rightarrow> val list" where
  "df_row row = map (\<lambda>(header, v). fillna (coerce_cell header v)) (zip headers row)"

definition df_values :: "val list list \<Rightarrow> val list list" where
  "df_values data = map df_row data"

section \<open>Concrete environments\<close>

text \<open>A provider that answers every request, and a store that accepts every call.\<close>

definition env_ok :: env where
  "env_ok =
     \<lparr>schedule = (\<lambda>start_date end_date.
        Returns [\<lparr>game_id = 745001, away_name = ''New York Yankees'',
                  home_name = ''Atlanta Braves'',
                  away_probable_pitcher = Some ''Gerrit Cole'',
                  home_probable_pitcher = Some ''Max Fried''\<rparr>]),
      sports_players = (\<lambda>k yr.
        Returns [\<lparr>fullName = ''Gerrit Cole'', pid = 543037\<rparr>,
                 \<lparr>fullName = ''Max Fried'', pid = 608331\<rparr>]),
      player_stat_data = (\<lambda>k p yr.
        Returns [Dict [(''era'', VStr ''3.45''), (''whip'', VStr ''1.10''),
                       (''inningsPitched'', VStr ''52.1''), (''gamesStarted'', VInt 9)]]),
      build_service = Returns (),
      to_values = (\<lambda>rows. Returns (df_values rows)),
      values_clear = Returns (),
      values_update = Returns ()\<rparr>"

text \<open>A provider and a store whose every call raises.\<close>

definition env_down :: env where
  "env_down =
     \<lparr>schedule = (\<lambda>start_date end_date. Raises ''timeout''),
      sports_players = (\<lambda>k yr. Raises ''timeout''),
      player_stat_data = (\<lambda>k p yr. Raises ''timeout''),
      build_service = Returns (),
      to_values = (\<lambda>rows. Returns (df_values rows)),
      values_clear = Raises ''quota'',
      values_update = Raises ''quota''\<rparr>"

text \<open>A store whose clear call raises and whose update call succeeds.\<close>

definition env_clear_fails :: env where
  "env_clear_fails = env_ok\<lparr>values_clear := Raises ''quota''\<rparr>"

text \<open>The state at the start of a run, and a game without probable pitchers.\<close>

definition w0 :: world where
  "w0 = \<lparr>cache_player_ids = [], trace = []\<rparr>"

definition game_tbd :: game where
  "game_tbd =
     \<lparr>game_id = 745002, away_name = ''Boston Red Sox'', home_name = ''Chicago Cubs'',
      away_probable_pitcher = None, home_probable_pitcher = Some []\<rparr>"

definition game_one :: game where
  "game_one =
     \<lparr>game_id = 745001, away_name = ''New York Yankees'', home_name = ''Atlanta Braves'',
      away_probable_pitcher = Some ''Gerrit Cole'',
      home_probable_pitcher = Some ''Max Fried''\<rparr>"

text \<open>A row with a statistic that the provider could not compute, and a table of it.\<close>

definition row_mixed :: "val list" where
  "row_mixed =
     [VInt 745003, VStr ''Seattle Mariners'', VStr ''Texas Rangers'',
      VStr ''Logan Gilbert'', VStr ''Jacob deGrom'',
      VStr ''3.45'', VStr ''1.10'', VStr [], VStr [], VStr [], VStr [], VStr [],
      VStr ''52.1'', VInt 9,
      VStr ''-.--'', VStr ''-.--'', VStr ''n/a'', VStr [], VStr [], VStr [], VStr [],
      VStr ''0.0'', VInt 0]"

section \<open>Notions used in the statements\<close>

text \<open>
  An attempt of the statistics retriever fails before line 59 when the request raises
  or when the list of statistics groups is empty.
\<close>

definition fails_early :: "stats_field list outcome \<Rightarrow> bool" where
  "fails_early r = (case r of Raises e \<Rightarrow> True | Returns groups \<Rightarrow> groups = [])"

text \<open>A side of a game has no probable pitcher: the key is missing, or its value is empty.\<close>

definition absent :: "string option \<Rightarrow> bool" where
  "absent n = (n = None \<or> n = Some [])"

text \<open>The events that follow the first printed failure of a call to the store.\<close>

fun after_failure :: "event list \<Rightarrow> event list" where
  "after_failure [] = []"
| "after_failure (Print (ClearFailed e) # es) = es"
| "after_failure (Print (UpdateFailed e) # es) = es"
| "after_failure (e # es) = after_failure es"

section \<open>Basic facts\<close>

lemma trace_emit [simp]: "trace (emit e w) = trace w @ [e]"
  by (simp add: emit_def)

lemma cache_emit [simp]: "cache_player_ids (emit e w) = cache_player_ids w"
  by (simp add: emit_def)

lemma stats_requests_emit [simp]:
  "stats_requests (emit e w) = stats_requests w + (if is_stats_request e then 1 else 0)"
  by (simp add: stats_requests_def)

lemma roster_fetches_emit [simp]:
  "roster_fetches (emit e w) = roster_fetches w + (if is_roster_fetch e then 1 else 0)"
  by (simp add: roster_fetches_def)

lemma stats_requests_handle [simp]:
  "stats_requests (handle_attempt_error p a e w) = stats_requests w"
  by (simp add: handle_attempt_error_def)

lemma roster_fetches_cache_update [simp]:
  "roster_fetches (w\<lparr>cache_player_ids := c\<rparr>) = roster_fetches w"
  by (simp add: roster_fetches_def)

text \<open>The loop over the roster is a search for the first entry with the given name.\<close>

lemma find_player_find:
  "find_player players name w =
     (case find (\<lambda>p. fullName p = name) players of
        None \<Rightarrow> (None, w)
      | Some p \<Rightarrow>
          (Some (pid p),
           w\<lparr>cache_player_ids := AList.update name (pid p) (cache_player_ids w)\<rparr>))"
  by (induction players) simp_all

lemma find_player_fetches [simp]:
  "roster_fetches (snd (find_player players name w)) = roster_fetches w"
  by (simp add: find_player_find split: option.splits)

lemma get_player_id_cached:
  "map_of (cache_player_ids w) name = Some i \<Longrightarrow> get_player_id env name yr w = (Some i, w)"
  by (simp add: get_player_id_def)

lemma get_player_id_caches:
  "fst (get_player_id env name yr w) = Some i \<Longrightarrow>
   map_of (cache_player_ids (snd (get_player_id env name yr w))) name = Some i"
  by (auto simp: get_player_id_def find_player_find update_conv'
           split: option.splits outcome.splits)

lemma get_player_id_none_keeps_world:
  "fst (get_player_id env name yr w) = None \<Longrightarrow>
   cache_player_ids (snd (get_player_id env name yr w)) = cache_player_ids w
   \<and> map_of (cache_player_ids w) name = None"
  by (auto simp: get_player_id_def find_player_find split: option.splits outcome.splits)

lemma get_player_id_miss_fetches:
  "map_of (cache_player_ids w) name = None \<Longrightarrow>
   roster_fetches (snd (get_player_id env name yr w)) = roster_fetches w + 1"
  by (simp add: get_player_id_def split: outcome.splits)

section \<open>Properties of the identifier resolver\<close>

text \<open>
  C6. On a cache miss \<open>get_player_id\<close> fetches the roster exactly once. When the fetch
  returns a roster in which \<open>p\<close> is the first player whose full name is the given name,
  the result is the id of \<open>p\<close>; when no entry of the roster has that name the result is
  \<open>None\<close>; when the fetch raises, the result is \<open>None\<close> and the only events are the
  fetch and the printed error. The function has no exceptional result, and in each
  case the number of roster fetches grows by one: there is no retry.
\<close>

theorem get_player_id_outcomes:
  assumes miss: "map_of (cache_player_ids w) name = None"
  shows "(\<forall>players p. sports_players env (roster_fetches w) yr = Returns players
            \<and> find (\<lambda>q. fullName q = name) players = Some p
            \<longrightarrow> fst (get_player_id env name yr w) = Some (pid p)
                \<and> trace (snd (get_player_id env name yr w)) = trace w @ [RosterFetch yr])
       \<and> (\<forall>players. sports_players env (roster_fetches w) yr = Returns players
            \<and> (\<forall>q \<in> set players. fullName q \<noteq> name)
            \<longrightarrow> get_player_id env name yr w = (None, emit (RosterFetch yr) w))
       \<and> (\<forall>e. sports_players env (roster_fetches w) yr = Raises e
            \<longrightarrow> get_player_id env name yr w =
                  (None, emit (Print (IdError name e)) (emit (RosterFetch yr) w)))
       \<and> roster_fetches (snd (get_player_id env name yr w)) = roster_fetches w + 1"
proof (intro conjI allI impI)
  fix players p
  assume h: "sports_players env (roster_fetches w) yr = Returns players
             \<and> find (\<lambda>q. fullName q = name) players = Some p"
  with miss show "fst (get_player_id env name yr w) = Some (pid p)"
    by (simp add: get_player_id_def find_player_find)
  from miss h show "trace (snd (get_player_id env name yr w)) = trace w @ [RosterFetch yr]"
    by (simp add: get_player_id_def find_player_find)
next
  fix players
  assume h: "sports_players env (roster_fetches w) yr = Returns players
             \<and> (\<forall>q \<in> set players. fullName q \<noteq> name)"
  then have "find (\<lambda>q. fullName q = name) players = None"
    by (simp add: find_None_iff)
  with miss h show "get_player_id env name yr w = (None, emit (RosterFetch yr) w)"
    by (simp add: get_player_id_def find_player_find)
next
  fix e
  assume "sports_players env (roster_fetches w) yr = Raises e"
  with miss show "get_player_id env name yr w =
                    (None, emit (Print (IdError name e)) (emit (RosterFetch yr) w))"
    by (simp add: get_player_id_def)
next
  from miss show "roster_fetches (snd (get_player_id env name yr w)) = roster_fetches w + 1"
    by (rule get_player_id_miss_fetches)
qed

theorem get_player_id_outcomes_witness:
  "map_of (cache_player_ids w0) ''Max Fried'' = None
   \<and> fst (get_player_id env_ok ''Max Fried'' 2025 w0) = Some 608331
   \<and> get_player_id env_ok ''Babe Ruth'' 2025 w0 = (None, emit (RosterFetch 2025) w0)
   \<and> get_player_id env_down ''Max Fried'' 2025 w0 =
       (None, emit (Print (IdError ''Max Fried'' ''timeout'')) (emit (RosterFetch 2025) w0))
   \<and> roster_fetches (snd (get_player_id env_down ''Max Fried'' 2025 w0)) = 1"
proof -
  have miss: "\<And>n. map_of (cache_player_ids w0) n = None"
    by (simp add: w0_def)
  have roster: "sports_players env_ok (roster_fetches w0) 2025 =
                  Returns [\<lparr>fullName = ''Gerrit Cole'', pid = 543037\<rparr>,
                           \<lparr>fullName = ''Max Fried'', pid = 608331\<rparr>]"
    by (simp add: env_ok_def)
  have down: "sports_players env_down (roster_fetches w0) 2025 = Raises ''timeout''"
    by (simp add: env_down_def)
  have zero: "roster_fetches w0 = 0"
    by (simp add: roster_fetches_def w0_def)
  from get_player_id_outcomes [where w = w0 and name = "''Max Fried''" and env = env_ok and yr = 2025, OF miss] roster
  have a: "fst (get_player_id env_ok ''Max Fried'' 2025 w0) = Some 608331"
    by simp
  from get_player_id_outcomes [where w = w0 and name = "''Babe Ruth''" and env = env_ok and yr = 2025, OF miss] roster
  have b: "get_player_id env_ok ''Babe Ruth'' 2025 w0 = (None, emit (RosterFetch 2025) w0)"
    by simp
  from get_player_id_outcomes [where w = w0 and name = "''Max Fried''" and env = env_down and yr = 2025, OF miss] down zero
  have c: "get_player_id env_down ''Max Fried'' 2025 w0 =
             (None, emit (Print (IdError ''Max Fried'' ''timeout'')) (emit (RosterFetch 2025) w0))
           \<and> roster_fetches (snd (get_player_id env_down ''Max Fried'' 2025 w0)) = 1"
    by simp
  have m: "map_of (cache_player_ids w0) ''Max Fried'' = None"
    by (rule miss)
  from m a b c show ?thesis by blast
qed

text \<open>
  C9. The cache is looked up by the name alone. A name that is in the cache is answered
  with the cached id for every season, and the world is left as it is (no fetch). Hence
  the id that a call for one season resolved is what a later call with the same name
  and any other season returns.
\<close>

theorem cache_ignores_season:
  "(map_of (cache_player_ids w) name = Some i
      \<longrightarrow> get_player_id env name yr w = (Some i, w))
   \<and> (fst (get_player_id env name yr w) = Some i
      \<longrightarrow> get_player_id env name yr' (snd (get_player_id env name yr w)) =
            (Some i, snd (get_player_id env name yr w)))"
  using get_player_id_cached get_player_id_caches by blast

theorem cache_ignores_season_witness:
  "map_of (cache_player_ids \<lparr>cache_player_ids = [(''Max Fried'', 608331)], trace = []\<rparr>)
       ''Max Fried'' = Some 608331
   \<and> get_player_id env_down ''Max Fried'' 1999
       \<lparr>cache_player_ids = [(''Max Fried'', 608331)], trace = []\<rparr> =
       (Some 608331, \<lparr>cache_player_ids = [(''Max Fried'', 608331)], trace = []\<rparr>)
   \<and> fst (get_player_id env_ok ''Max Fried'' 2025 w0) = Some 608331
   \<and> fst (get_player_id env_down ''Max Fried'' 1999
            (snd (get_player_id env_ok ''Max Fried'' 2025 w0))) = Some 608331"
proof -
  have h1: "map_of (cache_player_ids \<lparr>cache_player_ids = [(''Max Fried'', 608331)], trace = []\<rparr>)
              ''Max Fried'' = Some 608331"
    by simp
  have h2: "fst (get_player_id env_ok ''Max Fried'' 2025 w0) = Some 608331"
    by (simp add: get_player_id_def env_ok_def w0_def)
  from cache_ignores_season
         [of "\<lparr>cache_player_ids = [(''Max Fried'', 608331)], trace = []\<rparr>" "''Max Fried''"
             608331 env_down 1999] h1
  have a: "get_player_id env_down ''Max Fried'' 1999
             \<lparr>cache_player_ids = [(''Max Fried'', 608331)], trace = []\<rparr> =
             (Some 608331, \<lparr>cache_player_ids = [(''Max Fried'', 608331)], trace = []\<rparr>)"
    by blast
  have "get_player_id env_ok ''Max Fried'' 1999 (snd (get_player_id env_ok ''Max Fried'' 2025 w0)) =
          (Some 608331, snd (get_player_id env_ok ''Max Fried'' 2025 w0))"
    using cache_ignores_season [of w0 "''Max Fried''" 608331 env_ok 2025 1999] h2 by blast
  moreover have "snd (get_player_id env_ok ''Max Fried'' 2025 w0) =
                   \<lparr>cache_player_ids = [(''Max Fried'', 608331)], trace = [RosterFetch 2025]\<rparr>"
    by (simp add: get_player_id_def env_ok_def w0_def emit_def)
  ultimately have b: "fst (get_player_id env_down ''Max Fried'' 1999
            (snd (get_player_id env_ok ''Max Fried'' 2025 w0))) = Some 608331"
    by (simp add: get_player_id_def)
  from h1 h2 a b show ?thesis by blast
qed

text \<open>
  C10. A call that returns \<open>None\<close> (no match, or a fetch that raised) leaves the cache
  as it was, and a call changes the cache only by binding the given name, which was not
  in the cache, to the id it returns. The values of the cache are ids: a name is never
  bound to \<open>None\<close>.
\<close>

theorem cache_written_on_match_only:
  "(fst (get_player_id env name yr w) = None
      \<longrightarrow> cache_player_ids (snd (get_player_id env name yr w)) = cache_player_ids w)
   \<and> (cache_player_ids (snd (get_player_id env name yr w)) \<noteq> cache_player_ids w
      \<longrightarrow> map_of (cache_player_ids w) name = None
          \<and> (\<exists>i. fst (get_player_id env name yr w) = Some i
                \<and> cache_player_ids (snd (get_player_id env name yr w)) =
                    AList.update name i (cache_player_ids w)))"
  by (auto simp: get_player_id_def find_player_find split: option.splits outcome.splits)

theorem cache_written_on_match_only_witness:
  "fst (get_player_id env_down ''Max Fried'' 2025 w0) = None
   \<and> cache_player_ids (snd (get_player_id env_down ''Max Fried'' 2025 w0)) = cache_player_ids w0
   \<and> fst (get_player_id env_ok ''Babe Ruth'' 2025 w0) = None
   \<and> cache_player_ids (snd (get_player_id env_ok ''Babe Ruth'' 2025 w0)) = cache_player_ids w0
   \<and> cache_player_ids (snd (get_player_id env_ok ''Max Fried'' 2025 w0)) \<noteq> cache_player_ids w0
   \<and> fst (get_player_id env_ok ''Max Fried'' 2025 w0) \<noteq> None"
proof -
  have h1: "fst (get_player_id env_down ''Max Fried'' 2025 w0) = None"
    by (simp add: get_player_id_def env_down_def w0_def)
  have h2: "fst (get_player_id env_ok ''Babe Ruth'' 2025 w0) = None"
    by (simp add: get_player_id_def env_ok_def w0_def)
  have h3: "cache_player_ids (snd (get_player_id env_ok ''Max Fried'' 2025 w0))
              \<noteq> cache_player_ids w0"
    by (simp add: get_player_id_def env_ok_def w0_def)
  from cache_written_on_match_only [of env_down "''Max Fried''" 2025 w0] h1
  have a: "cache_player_ids (snd (get_player_id env_down ''Max Fried'' 2025 w0)) =
             cache_player_ids w0"
    by blast
  from cache_written_on_match_only [of env_ok "''Babe Ruth''" 2025 w0] h2
  have b: "cache_player_ids (snd (get_player_id env_ok ''Babe Ruth'' 2025 w0)) =
             cache_player_ids w0"
    by blast
  from cache_written_on_match_only [of env_ok "''Max Fried''" 2025 w0] h3
  have c: "fst (get_player_id env_ok ''Max Fried'' 2025 w0) \<noteq> None"
    by auto
  from h1 h2 h3 a b c show ?thesis by blast
qed

text \<open>
  C2. As stated the claim fails when the first call finds no match: nothing is stored
  for the name, and the second call fetches the roster again. Here two calls for a name
  that is not in the roster issue two fetches.
\<close>

theorem get_player_id_twice_counterexample:
  "\<not> roster_fetches (snd (get_player_id env_ok ''Babe Ruth'' 2025
         (snd (get_player_id env_ok ''Babe Ruth'' 2025 w0)))) \<le> roster_fetches w0 + 1"
  by (simp add: get_player_id_def env_ok_def w0_def roster_fetches_def emit_def)

text \<open>
  C2, amended. Two calls with the same name issue no roster fetch when the name was
  cached before, one when the first call returned an id (the second call is then
  answered from the cache), and two when the first call returned \<open>None\<close>.
\<close>

theorem get_player_id_twice_fetches:
  "roster_fetches (snd (get_player_id env name yr' (snd (get_player_id env name yr w)))) =
     roster_fetches w +
       (if map_of (cache_player_ids w) name \<noteq> None then 0
        else if fst (get_player_id env name yr w) \<noteq> None then 1 else 2)"
proof (cases "map_of (cache_player_ids w) name")
  case (Some i)
  then show ?thesis
    by (simp add: get_player_id_cached)
next
  case None
  note miss = this
  show ?thesis
  proof (cases "fst (get_player_id env name yr w)")
    case (Some i)
    have "get_player_id env name yr' (snd (get_player_id env name yr w)) =
            (Some i, snd (get_player_id env name yr w))"
      using get_player_id_caches [OF Some] by (rule get_player_id_cached)
    with miss Some show ?thesis
      by (simp add: get_player_id_miss_fetches)
  next
    case None
    from get_player_id_none_keeps_world [OF None]
    have "map_of (cache_player_ids (snd (get_player_id env name yr w))) name = None"
      by simp
    from get_player_id_miss_fetches [OF this] miss None show ?thesis
      by (simp add: get_player_id_miss_fetches)
  qed
qed

theorem get_player_id_twice_fetches_witness:
  "roster_fetches (snd (get_player_id env_ok ''Max Fried'' 2024
       (snd (get_player_id env_ok ''Max Fried'' 2025 w0)))) = 1
   \<and> roster_fetches (snd (get_player_id env_down ''Max Fried'' 2025
       (snd (get_player_id env_down ''Max Fried'' 2025 w0)))) = 2"
proof -
  have zero: "roster_fetches w0 = 0" and miss: "map_of (cache_player_ids w0) ''Max Fried'' = None"
    by (simp_all add: roster_fetches_def w0_def)
  have found: "fst (get_player_id env_ok ''Max Fried'' 2025 w0) = Some 608331"
    by (simp add: get_player_id_def env_ok_def w0_def)
  have failed: "fst (get_player_id env_down ''Max Fried'' 2025 w0) = None"
    by (simp add: get_player_id_def env_down_def w0_def)
  from get_player_id_twice_fetches [of env_ok "''Max Fried''" 2024 2025 w0] zero miss found
  have a: "roster_fetches (snd (get_player_id env_ok ''Max Fried'' 2024
             (snd (get_player_id env_ok ''Max Fried'' 2025 w0)))) = 1"
    by simp
  from get_player_id_twice_fetches [of env_down "''Max Fried''" 2025 2025 w0] zero miss failed
  have b: "roster_fetches (snd (get_player_id env_down ''Max Fried'' 2025
             (snd (get_player_id env_down ''Max Fried'' 2025 w0)))) = 2"
    by simp
  from a b show ?thesis by blast
qed

section \<open>Properties of the statistics retriever\<close>

lemma attempt_loop_requests:
  "stats_requests (snd (attempt_loop env p yr atts b w)) \<le> stats_requests w + length atts"
proof (induction atts arbitrary: b w)
  case Nil
  show ?case by simp
next
  case (Cons a atts)
  show ?case
  proof (cases "player_stat_data env (stats_requests w) p yr")
    case (Raises e)
    then show ?thesis
      using Cons.IH [of b "handle_attempt_error p a (ExternalError e) (emit (StatsRequest p yr) w)"]
      by simp
  next
    case (Returns groups)
    show ?thesis
    proof (cases groups)
      case Nil
      then show ?thesis
        using Returns
          Cons.IH [of b "handle_attempt_error p a IndexError (emit (StatsRequest p yr) w)"]
        by simp
    next
      case (Cons st others)
      then show ?thesis
        using Returns
          Cons.IH [of True "handle_attempt_error p a AttributeError (emit (StatsRequest p yr) w)"]
        by (cases st) simp_all
    qed
  qed
qed

text \<open>
  When every attempt fails before line 59, the variable read on line 68 was never
  assigned, whatever the budget.
\<close>

lemma attempt_loop_unbound:
  "(\<And>k. fails_early (player_stat_data env k p yr)) \<Longrightarrow>
   fst (attempt_loop env p yr atts False w) = Inl UnboundLocalError"
proof (induction atts arbitrary: w)
  case Nil
  show ?case by simp
next
  case (Cons a atts)
  from Cons.prems [of "stats_requests w"] Cons.IH [OF Cons.prems]
  show ?case
    by (auto simp: fails_early_def split: outcome.splits list.splits)
qed

lemma get_player_stats_unbound:
  "(\<And>k. fails_early (player_stat_data env k p yr)) \<Longrightarrow>
   fst (get_player_stats env p yr retries w) = Inl UnboundLocalError"
  by (simp add: get_player_stats_def attempt_loop_unbound)

text \<open>
  C1. With a provider whose every request raises, the three attempts of the default
  budget are made, each is printed and followed by the pause, and then line 68 raises
  \<open>UnboundLocalError\<close>: the nine empty strings are not returned.
\<close>

theorem get_player_stats_all_attempts_fail:
  "get_player_stats env_down 543037 2025 3 w0 =
     (Inl UnboundLocalError,
      \<lparr>cache_player_ids = [],
       trace = [StatsRequest 543037 2025,
                Print (StatsError 543037 1 (ExternalError ''timeout'')), Sleep 2000,
                StatsRequest 543037 2025,
                Print (StatsError 543037 2 (ExternalError ''timeout'')), Sleep 2000,
                StatsRequest 543037 2025,
                Print (StatsError 543037 3 (ExternalError ''timeout'')), Sleep 2000]\<rparr>)"
  by (simp add: get_player_stats_def env_down_def w0_def handle_attempt_error_def emit_def
        stats_requests_def upt_conv_Cons eval_nat_numeral)

text \<open>
  C8. The statistics retriever issues at most \<open>retries\<close> requests (none for a budget
  below 1), and at most 3 with the default budget. The loop is a recursion on the list
  \<open>range(retries)\<close>, so \<open>get_player_stats\<close> is a total function: it ends, with a
  result or with the exception of line 68.
\<close>

theorem get_player_stats_bounded:
  "stats_requests (snd (get_player_stats env p yr retries w)) \<le> stats_requests w + nat retries
   \<and> stats_requests (snd (get_player_stats env p yr 3 w)) \<le> stats_requests w + 3"
  using attempt_loop_requests [of env p yr "[0..<nat retries]" False w]
        attempt_loop_requests [of env p yr "[0..<nat 3]" False w]
  by (simp add: get_player_stats_def)

section \<open>Properties of the row assembler\<close>

lemma enrich_side_absent: "enrich_side env [] w = (Inr [], w)"
  by (simp add: enrich_side_def)

lemma dict_get_empty: "dict_get [] key dflt = dflt"
  by (simp add: dict_get_def)

lemma length_row_keys: "length row_keys = 9"
  by (simp add: row_keys_def)

lemma row_keys_relevant: "row_keys = relevant_keys"
  by (simp add: row_keys_def relevant_keys_def)

lemma empty_block: "map (\<lambda>key. dict_get [] key (VStr [])) row_keys = replicate 9 (VStr [])"
  by (simp add: row_keys_def dict_get_empty eval_nat_numeral)

lemma absent_name: "absent n \<Longrightarrow> pitcher_name_of n = []"
  by (auto simp: absent_def pitcher_name_of_def)

text \<open>
  C4. When the away pitcher is absent, the away side leaves the world as it is (no
  resolver call, no retriever call), the game is processed from the home side alone,
  and the fields 5 to 13 of the row are empty strings. When the home pitcher is absent,
  the same holds for the home side and the fields 14 to 22.
\<close>

theorem absent_pitcher_empty_stats:
  "(absent (away_probable_pitcher g) \<longrightarrow>
      enrich_side env (pitcher_name_of (away_probable_pitcher g)) w = (Inr [], w)
      \<and> process_game env g w =
          (case enrich_side env (pitcher_name_of (home_probable_pitcher g)) w of
             (Inl e, w2) \<Rightarrow> (Inl e, w2)
           | (Inr home_stats, w2) \<Rightarrow>
               (Inr ([VInt (game_id g), VStr (away_name g), VStr (home_name g), VStr [],
                      VStr (pitcher_name_of (home_probable_pitcher g))]
                     @ replicate 9 (VStr [])
                     @ map (\<lambda>key. dict_get home_stats key (VStr [])) row_keys),
                emit (Sleep 500) w2)))
   \<and> (absent (home_probable_pitcher g) \<longrightarrow>
      enrich_side env (pitcher_name_of (home_probable_pitcher g)) w1 = (Inr [], w1)
      \<and> process_game env g w =
          (case enrich_side env (pitcher_name_of (away_probable_pitcher g)) w of
             (Inl e, w2) \<Rightarrow> (Inl e, w2)
           | (Inr away_stats, w2) \<Rightarrow>
               (Inr ([VInt (game_id g), VStr (away_name g), VStr (home_name g),
                      VStr (pitcher_name_of (away_probable_pitcher g)), VStr []]
                     @ map (\<lambda>key. dict_get away_stats key (VStr [])) row_keys
                     @ replicate 9 (VStr [])),
                emit (Sleep 500) w2)))"
proof (intro conjI impI)
  assume a: "absent (away_probable_pitcher g)"
  show "enrich_side env (pitcher_name_of (away_probable_pitcher g)) w = (Inr [], w)"
    by (simp add: absent_name [OF a] enrich_side_absent)
  show "process_game env g w =
          (case enrich_side env (pitcher_name_of (home_probable_pitcher g)) w of
             (Inl e, w2) \<Rightarrow> (Inl e, w2)
           | (Inr home_stats, w2) \<Rightarrow>
               (Inr ([VInt (game_id g), VStr (away_name g), VStr (home_name g), VStr [],
                      VStr (pitcher_name_of (home_probable_pitcher g))]
                     @ replicate 9 (VStr [])
                     @ map (\<lambda>key. dict_get home_stats key (VStr [])) row_keys),
                emit (Sleep 500) w2))"
    by (simp add: process_game_def absent_name [OF a] enrich_side_absent empty_block
             split: prod.splits sum.splits)
next
  assume h: "absent (home_probable_pitcher g)"
  show "enrich_side env (pitcher_name_of (home_probable_pitcher g)) w1 = (Inr [], w1)"
    by (simp add: absent_name [OF h] enrich_side_absent)
  show "process_game env g w =
          (case enrich_side env (pitcher_name_of (away_probable_pitcher g)) w of
             (Inl e, w2) \<Rightarrow> (Inl e, w2)
           | (Inr away_stats, w2) \<Rightarrow>
               (Inr ([VInt (game_id g), VStr (away_name g), VStr (home_name g),
                      VStr (pitcher_name_of (away_probable_pitcher g)), VStr []]
                     @ map (\<lambda>key. dict_get away_stats key (VStr [])) row_keys
                     @ replicate 9 (VStr [])),
                emit (Sleep 500) w2))"
    by (simp add: process_game_def absent_name [OF h] enrich_side_absent empty_block
             split: prod.splits sum.splits)
qed

theorem absent_pitcher_empty_stats_witness:
  "absent (away_probable_pitcher game_tbd) \<and> absent (home_probable_pitcher game_tbd)
   \<and> process_game env_ok game_tbd w0 =
       (Inr ([VInt 745002, VStr ''Boston Red Sox'', VStr ''Chicago Cubs'', VStr [], VStr []]
             @ replicate 18 (VStr [])),
        \<lparr>cache_player_ids = [], trace = [Sleep 500]\<rparr>)"
proof -
  have a: "absent (away_probable_pitcher game_tbd)"
    by (simp add: absent_def game_tbd_def)
  have h: "absent (home_probable_pitcher game_tbd)"
    by (simp add: absent_def game_tbd_def)
  from absent_pitcher_empty_stats [of game_tbd env_ok w0 w0] a h
  have "process_game env_ok game_tbd w0 =
          (case enrich_side env_ok (pitcher_name_of (home_probable_pitcher game_tbd)) w0 of
             (Inl e, w2) \<Rightarrow> (Inl e, w2)
           | (Inr home_stats, w2) \<Rightarrow>
               (Inr ([VInt (game_id game_tbd), VStr (away_name game_tbd),
                      VStr (home_name game_tbd), VStr [],
                      VStr (pitcher_name_of (home_probable_pitcher game_tbd))]
                     @ replicate 9 (VStr [])
                     @ map (\<lambda>key. dict_get home_stats key (VStr [])) row_keys),
                emit (Sleep 500) w2))"
    and "enrich_side env_ok (pitcher_name_of (home_probable_pitcher game_tbd)) w0 = (Inr [], w0)"
    by blast+
  then have "process_game env_ok game_tbd w0 =
       (Inr ([VInt 745002, VStr ''Boston Red Sox'', VStr ''Chicago Cubs'', VStr [], VStr []]
             @ replicate 18 (VStr [])),
        \<lparr>cache_player_ids = [], trace = [Sleep 500]\<rparr>)"
    by (simp add: game_tbd_def pitcher_name_of_def empty_block w0_def emit_def
          replicate_add [symmetric])
  with a h show ?thesis by blast
qed

text \<open>
  C5. A row that is assembled has 23 fields: the game id, the two team names and the
  two pitcher names, then the nine statistics of the away side and the nine of the home
  side, each block in the order that the headers name ERA, WHIP, K/9, BB/9, H/9, R/9,
  HR/9, IP and GS. A statistic that a side's dictionary lacks is the empty string.
\<close>

theorem process_game_row_layout:
  assumes "process_game env g w = (Inr row, w')"
  shows "length row = 23
       \<and> take 5 row =
           [VInt (game_id g), VStr (away_name g), VStr (home_name g),
            VStr (pitcher_name_of (away_probable_pitcher g)),
            VStr (pitcher_name_of (home_probable_pitcher g))]
       \<and> (\<exists>away_stats home_stats w1.
             enrich_side env (pitcher_name_of (away_probable_pitcher g)) w = (Inr away_stats, w1)
           \<and> fst (enrich_side env (pitcher_name_of (home_probable_pitcher g)) w1) = Inr home_stats
           \<and> take 9 (drop 5 row) =
               map (\<lambda>key. dict_get away_stats key (VStr []))
                 [''era'', ''whip'', ''strikeoutsPer9Inn'', ''walksPer9Inn'', ''hitsPer9Inn'',
                  ''runsScoredPer9'', ''homeRunsPer9'', ''inningsPitched'', ''gamesStarted'']
           \<and> drop 14 row =
               map (\<lambda>key. dict_get home_stats key (VStr []))
                 [''era'', ''whip'', ''strikeoutsPer9Inn'', ''walksPer9Inn'', ''hitsPer9Inn'',
                  ''runsScoredPer9'', ''homeRunsPer9'', ''inningsPitched'', ''gamesStarted''])
       \<and> take 5 headers =
           [''Game ID'', ''Away Team'', ''Home Team'', ''Away Pitcher'', ''Home Pitcher'']
       \<and> zip (drop 5 headers) (row_keys @ row_keys) =
           [(''Away ERA'', ''era''), (''Away WHIP'', ''whip''),
            (''Away K/9'', ''strikeoutsPer9Inn''), (''Away BB/9'', ''walksPer9Inn''),
            (''Away H/9'', ''hitsPer9Inn''), (''Away R/9'', ''runsScoredPer9''),
            (''Away HR/9'', ''homeRunsPer9''), (''Away IP'', ''inningsPitched''),
            (''Away GS'', ''gamesStarted''),
            (''Home ERA'', ''era''), (''Home WHIP'', ''whip''),
            (''Home K/9'', ''strikeoutsPer9Inn''), (''Home BB/9'', ''walksPer9Inn''),
            (''Home H/9'', ''hitsPer9Inn''), (''Home R/9'', ''runsScoredPer9''),
            (''Home HR/9'', ''homeRunsPer9''), (''Home IP'', ''inningsPitched''),
            (''Home GS'', ''gamesStarted'')]"
proof -
  obtain r1 w1 where e1: "enrich_side env (pitcher_name_of (away_probable_pitcher g)) w = (r1, w1)"
    by (cases "enrich_side env (pitcher_name_of (away_probable_pitcher g)) w")
  obtain r2 w2 where e2: "enrich_side env (pitcher_name_of (home_probable_pitcher g)) w1 = (r2, w2)"
    by (cases "enrich_side env (pitcher_name_of (home_probable_pitcher g)) w1")
  from assms e1 obtain away_stats where r1: "r1 = Inr away_stats"
    by (cases r1) (simp_all add: process_game_def)
  from assms e1 e2 r1 obtain home_stats where r2: "r2 = Inr home_stats"
    by (cases r2) (simp_all add: process_game_def)
  from assms e1 e2 r1 r2
  have row: "row = [VInt (game_id g), VStr (away_name g), VStr (home_name g),
                    VStr (pitcher_name_of (away_probable_pitcher g)),
                    VStr (pitcher_name_of (home_probable_pitcher g))]
                   @ map (\<lambda>key. dict_get away_stats key (VStr [])) row_keys
                   @ map (\<lambda>key. dict_get home_stats key (VStr [])) row_keys"
    by (simp add: process_game_def)
  have len: "length row = 23"
    by (simp add: row length_row_keys)
  have hd5: "take 5 row =
           [VInt (game_id g), VStr (away_name g), VStr (home_name g),
            VStr (pitcher_name_of (away_probable_pitcher g)),
            VStr (pitcher_name_of (home_probable_pitcher g))]"
    by (simp add: row)
  have away: "take 9 (drop 5 row) =
               map (\<lambda>key. dict_get away_stats key (VStr []))
                 [''era'', ''whip'', ''strikeoutsPer9Inn'', ''walksPer9Inn'', ''hitsPer9Inn'',
                  ''runsScoredPer9'', ''homeRunsPer9'', ''inningsPitched'', ''gamesStarted'']"
    by (simp add: row row_keys_def)
  have home: "drop 14 row =
               map (\<lambda>key. dict_get home_stats key (VStr []))
                 [''era'', ''whip'', ''strikeoutsPer9Inn'', ''walksPer9Inn'', ''hitsPer9Inn'',
                  ''runsScoredPer9'', ''homeRunsPer9'', ''inningsPitched'', ''gamesStarted'']"
    by (simp add: row row_keys_def)
  have h5: "take 5 headers =
           [''Game ID'', ''Away Team'', ''Home Team'', ''Away Pitcher'', ''Home Pitcher'']"
    by (simp add: headers_def)
  have hz: "zip (drop 5 headers) (row_keys @ row_keys) =
           [(''Away ERA'', ''era''), (''Away WHIP'', ''whip''),
            (''Away K/9'', ''strikeoutsPer9Inn''), (''Away BB/9'', ''walksPer9Inn''),
            (''Away H/9'', ''hitsPer9Inn''), (''Away R/9'', ''runsScoredPer9''),
            (''Away HR/9'', ''homeRunsPer9''), (''Away IP'', ''inningsPitched''),
            (''Away GS'', ''gamesStarted''),
            (''Home ERA'', ''era''), (''Home WHIP'', ''whip''),
            (''Home K/9'', ''strikeoutsPer9Inn''), (''Home BB/9'', ''walksPer9Inn''),
            (''Home H/9'', ''hitsPer9Inn''), (''Home R/9'', ''runsScoredPer9''),
            (''Home HR/9'', ''homeRunsPer9''), (''Home IP'', ''inningsPitched''),
            (''Home GS'', ''gamesStarted'')]"
    by (simp add: headers_def row_keys_def)
  from e1 e2 r1 r2 away home
  have "\<exists>away_stats home_stats w1.
             enrich_side env (pitcher_name_of (away_probable_pitcher g)) w = (Inr away_stats, w1)
           \<and> fst (enrich_side env (pitcher_name_of (home_probable_pitcher g)) w1) = Inr home_stats
           \<and> take 9 (drop 5 row) =
               map (\<lambda>key. dict_get away_stats key (VStr []))
                 [''era'', ''whip'', ''strikeoutsPer9Inn'', ''walksPer9Inn'', ''hitsPer9Inn'',
                  ''runsScoredPer9'', ''homeRunsPer9'', ''inningsPitched'', ''gamesStarted'']
           \<and> drop 14 row =
               map (\<lambda>key. dict_get home_stats key (VStr []))
                 [''era'', ''whip'', ''strikeoutsPer9Inn'', ''walksPer9Inn'', ''hitsPer9Inn'',
                  ''runsScoredPer9'', ''homeRunsPer9'', ''inningsPitched'', ''gamesStarted'']"
    by (intro exI [of _ away_stats] exI [of _ home_stats] exI [of _ w1]) simp
  with len hd5 h5 hz show ?thesis by blast
qed

theorem process_game_row_layout_witness:
  "process_game env_ok game_one w0 =
     (Inr [VInt 745001, VStr ''New York Yankees'', VStr ''Atlanta Braves'',
           VStr ''Gerrit Cole'', VStr ''Max Fried'',
           VStr ''3.45'', VStr ''1.10'', VStr [], VStr [], VStr [], VStr [], VStr [],
           VStr ''52.1'', VInt 9,
           VStr ''3.45'', VStr ''1.10'', VStr [], VStr [], VStr [], VStr [], VStr [],
           VStr ''52.1'', VInt 9],
      \<lparr>cache_player_ids = [(''Gerrit Cole'', 543037), (''Max Fried'', 608331)],
       trace = [RosterFetch 2025, StatsRequest 543037 2025,
                RosterFetch 2025, StatsRequest 608331 2025, Sleep 500]\<rparr>)
   \<and> length [VInt 745001, VStr ''New York Yankees'', VStr ''Atlanta Braves'',
           VStr ''Gerrit Cole'', VStr ''Max Fried'',
           VStr ''3.45'', VStr ''1.10'', VStr [], VStr [], VStr [], VStr [], VStr [],
           VStr ''52.1'', VInt 9,
           VStr ''3.45'', VStr ''1.10'', VStr [], VStr [], VStr [], VStr [], VStr [],
           VStr ''52.1'', VInt 9] = (23::nat)"
proof -
  have run: "process_game env_ok game_one w0 =
     (Inr [VInt 745001, VStr ''New York Yankees'', VStr ''Atlanta Braves'',
           VStr ''Gerrit Cole'', VStr ''Max Fried'',
           VStr ''3.45'', VStr ''1.10'', VStr [], VStr [], VStr [], VStr [], VStr [],
           VStr ''52.1'', VInt 9,
           VStr ''3.45'', VStr ''1.10'', VStr [], VStr [], VStr [], VStr [], VStr [],
           VStr ''52.1'', VInt 9],
      \<lparr>cache_player_ids = [(''Gerrit Cole'', 543037), (''Max Fried'', 608331)],
       trace = [RosterFetch 2025, StatsRequest 543037 2025,
                RosterFetch 2025, StatsRequest 608331 2025, Sleep 500]\<rparr>)"
    by (simp add: process_game_def enrich_side_def get_player_id_def get_player_stats_def
          env_ok_def game_one_def w0_def pitcher_name_of_def season_def emit_def
          roster_fetches_def stats_requests_def dict_get_def row_keys_def relevant_keys_def
          upt_conv_Cons eval_nat_numeral)
  from process_game_row_layout [OF run] run show ?thesis
    by blast
qed

text \<open>Every row of the table that \<open>process_game_data\<close> returns is such a row.\<close>

lemma process_game_length:
  "process_game env g w = (Inr row, w') \<Longrightarrow> length row = 23"
  by (auto simp: process_game_def length_row_keys split: prod.splits sum.splits)

lemma process_games_rows:
  "process_games env games data w = (Inr data', w') \<Longrightarrow>
   length data' = length data + length games
   \<and> (\<forall>row \<in> set data'. row \<in> set data \<or> length row = 23)"
proof (induction games arbitrary: data w)
  case Nil
  then show ?case by simp
next
  case (Cons g games)
  obtain r w1 where step: "process_game env g w = (r, w1)"
    by (cases "process_game env g w")
  with Cons.prems obtain row where r: "r = Inr row"
    by (cases r) simp_all
  from Cons.prems step r have "process_games env games (data @ [row]) w1 = (Inr data', w')"
    by simp
  from Cons.IH [OF this] process_game_length [of env g w row w1] step r
  show ?case by auto
qed

lemma process_game_data_rows:
  "process_game_data env games w = (Inr data, w') \<Longrightarrow>
   length data = length games \<and> (\<forall>row \<in> set data. length row = 23)"
  using process_games_rows [of env games "[]" w data w']
  by (simp add: process_game_data_def)

text \<open>
  A row is assembled whenever the provider answers each statistics request with a
  dictionary; the only exception that leaves the assembler is that of line 68.
\<close>

lemma get_player_stats_first_ok:
  assumes "player_stat_data env (stats_requests w) p yr = Returns (Dict d # others)"
    and "0 < retries"
  shows "get_player_stats env p yr retries w =
           (Inr (map (\<lambda>key. (key, dict_get d key (VStr []))) relevant_keys),
            emit (StatsRequest p yr) w)"
proof -
  from \<open>0 < retries\<close> have "[0..<nat retries] = 0 # [1..<nat retries]"
    by (simp add: upt_conv_Cons)
  with assms(1) show ?thesis
    by (simp add: get_player_stats_def)
qed

lemma attempt_loop_error:
  "fst (attempt_loop env p yr atts b w) = Inl e \<Longrightarrow> e = UnboundLocalError"
proof (induction atts arbitrary: b w)
  case Nil
  then show ?case by (simp split: if_splits)
next
  case (Cons a atts)
  then show ?case
    by (auto split: outcome.splits list.splits stats_field.splits)
qed

lemma enrich_side_error:
  "fst (enrich_side env n w) = Inl e \<Longrightarrow> e = UnboundLocalError"
  by (auto simp: enrich_side_def get_player_stats_def
           split: if_splits prod.splits option.splits dest: attempt_loop_error)

lemma enrich_side_returns:
  assumes "\<And>k p yr. \<exists>d others. player_stat_data env k p yr = Returns (Dict d # others)"
  shows "\<exists>st w'. enrich_side env n w = (Inr st, w')"
proof (cases "n \<noteq> []")
  case False
  then show ?thesis by (simp add: enrich_side_def)
next
  case True
  obtain r w1 where idr: "get_player_id env n season w = (r, w1)"
    by (cases "get_player_id env n season w")
  show ?thesis
  proof (cases r)
    case None
    with True idr show ?thesis by (simp add: enrich_side_def)
  next
    case (Some i)
    from assms [of "stats_requests w1" i season]
    obtain d others where "player_stat_data env (stats_requests w1) i season = Returns (Dict d # others)"
      by blast
    from get_player_stats_first_ok [OF this, of 3] True idr Some
    show ?thesis by (simp add: enrich_side_def)
  qed
qed

lemma process_game_returns:
  assumes "\<And>k p yr. \<exists>d others. player_stat_data env k p yr = Returns (Dict d # others)"
  shows "\<exists>row w'. process_game env g w = (Inr row, w')"
proof -
  from enrich_side_returns [OF assms]
  obtain st1 w1 where a: "enrich_side env (pitcher_name_of (away_probable_pitcher g)) w = (Inr st1, w1)"
    by blast
  from enrich_side_returns [OF assms]
  obtain st2 w2 where h: "enrich_side env (pitcher_name_of (home_probable_pitcher g)) w1 = (Inr st2, w2)"
    by blast
  from a h show ?thesis by (simp add: process_game_def)
qed

section \<open>Properties of the sheet writer\<close>

lemma trace_clear:
  "trace (clear_google_sheet_range env w) =
     trace w @ [SheetClear,
                Print (case values_clear env of Raises e \<Rightarrow> ClearFailed e
                       | Returns u \<Rightarrow> Cleared)]"
  by (simp add: clear_google_sheet_range_def split: outcome.splits)

lemma cache_clear:
  "cache_player_ids (clear_google_sheet_range env w) = cache_player_ids w"
  by (simp add: clear_google_sheet_range_def split: outcome.splits)

text \<open>The sheet writer is the last statement of the program.\<close>

lemma main_ends_with_writer:
  "schedule env start_date end_date = Returns games \<Longrightarrow>
   process_game_data env games (emit (ScheduleFetch start_date end_date) w) = (Inr data, w2) \<Longrightarrow>
   main env start_date end_date w = write_to_google_sheets env data w2"
  by (simp add: main_def fetch_schedule_def)

text \<open>
  C3. As stated the claim fails for the clear call: its failure is printed inside
  \<open>clear_google_sheet_range\<close>, which returns, and the writer goes on to the update
  call. Here the clear raises and the update call follows the printed failure.
\<close>

theorem clear_failure_counterexample:
  "values_clear env_clear_fails = Raises ''quota''
   \<and> \<not> filter is_sheet_call
         (after_failure (trace (snd (write_to_google_sheets env_clear_fails [] w0)))) = []"
  by (simp add: write_to_google_sheets_def clear_google_sheet_range_def env_clear_fails_def
        env_ok_def w0_def emit_def)

text \<open>
  C3, amended. Once the service is built and the rows are converted, the writer makes
  exactly one clear call and then exactly one update call, whatever either of them
  does: a failure of the clear is printed and the update call is still made; a failure
  of the update is printed and is the last event. Neither call is repeated, nothing is
  undone, and the writer returns normally.
\<close>

theorem write_to_google_sheets_trace:
  assumes "build_service env = Returns u" and "to_values env data = Returns rows"
  shows "fst (write_to_google_sheets env data w) = Inr ()
       \<and> trace (snd (write_to_google_sheets env data w)) =
           trace w @
             [SheetClear,
              Print (case values_clear env of Raises e \<Rightarrow> ClearFailed e
                     | Returns u \<Rightarrow> Cleared),
              SheetUpdate headers rows,
              Print (case values_update env of Raises e \<Rightarrow> UpdateFailed e
                     | Returns u \<Rightarrow> Updated)]
       \<and> cache_player_ids (snd (write_to_google_sheets env data w)) = cache_player_ids w"
  using assms
  by (simp add: write_to_google_sheets_def trace_clear cache_clear split: outcome.splits)

theorem write_to_google_sheets_trace_witness:
  "build_service env_down = Returns () \<and> to_values env_down [] = Returns []
   \<and> fst (write_to_google_sheets env_down [] w0) = Inr ()
   \<and> trace (snd (write_to_google_sheets env_down [] w0)) =
       [SheetClear, Print (ClearFailed ''quota''),
        SheetUpdate headers [], Print (UpdateFailed ''quota'')]"
proof -
  have b: "build_service env_down = Returns ()"
    by (simp add: env_down_def)
  have t: "to_values env_down [] = Returns []"
    by (simp add: env_down_def df_values_def)
  have c: "values_clear env_down = Raises ''quota''"
    by (simp add: env_down_def)
  have u: "values_update env_down = Raises ''quota''"
    by (simp add: env_down_def)
  from write_to_google_sheets_trace [OF b t, of w0] c u
  have "fst (write_to_google_sheets env_down [] w0) = Inr ()
        \<and> trace (snd (write_to_google_sheets env_down [] w0)) =
            [SheetClear, Print (ClearFailed ''quota''),
             SheetUpdate headers [], Print (UpdateFailed ''quota'')]"
    by (simp add: w0_def)
  with b t show ?thesis by blast
qed

section \<open>Properties of the numeric coercion\<close>

lemma length_headers: "length headers = 23"
  by (simp add: headers_def)

lemma drop_headers: "drop 5 headers = numeric_columns"
  by (simp add: headers_def numeric_columns_def)

lemma length_numeric_columns: "length numeric_columns = 18"
  by (simp add: numeric_columns_def)

lemma stat_header: "5 \<le> j \<Longrightarrow> j < 23 \<Longrightarrow> headers ! j \<in> set numeric_columns"
proof -
  assume a: "5 \<le> j" and b: "j < 23"
  have "headers ! j = drop 5 headers ! (j - 5)"
    using a b by (simp add: length_headers)
  also have "\<dots> = numeric_columns ! (j - 5)"
    by (simp only: drop_headers)
  also have "\<dots> \<in> set numeric_columns"
    using a b by (intro nth_mem) (simp add: length_numeric_columns)
  finally show ?thesis .
qed

lemma lead_header: "j < 5 \<Longrightarrow> headers ! j \<notin> set numeric_columns"
proof -
  assume "j < 5"
  then have "j = 0 \<or> j = 1 \<or> j = 2 \<or> j = 3 \<or> j = 4"
    by arith
  then show ?thesis
    by (auto simp: headers_def numeric_columns_def)
qed

lemma length_df_row: "length row = 23 \<Longrightarrow> length (df_row row) = 23"
  by (simp add: df_row_def length_headers)

lemma df_row_nth:
  "length row = 23 \<Longrightarrow> j < 23 \<Longrightarrow>
   df_row row ! j = fillna (coerce_cell (headers ! j) (row ! j))"
  by (simp add: df_row_def length_headers)

lemma df_row_stat:
  "length row = 23 \<Longrightarrow> 5 \<le> j \<Longrightarrow> j < 23 \<Longrightarrow> df_row row ! j = fillna (to_numeric (row ! j))"
  by (simp add: df_row_nth coerce_cell_def stat_header)

lemma df_row_lead:
  "length row = 23 \<Longrightarrow> j < 5 \<Longrightarrow> df_row row ! j = row ! j"
  by (simp add: df_row_nth coerce_cell_def lead_header fillna_def)

lemma fillna_to_numeric:
  "fillna (to_numeric v) = (if numeric v then (case v of VStr s \<Rightarrow> VFloat s | _ \<Rightarrow> v) else VStr [])"
  by (cases v) (simp_all add: fillna_def)

lemma numeral_345: "is_numeral ''3.45''"
  by (simp add: is_numeral_def unsigned_def is_digit_def)

lemma not_numeral_empty: "\<not> is_numeral []"
  by (simp add: is_numeral_def unsigned_def)

lemma write_to_google_sheets_payload:
  assumes "build_service env = Returns u" and "to_values env data = Returns rows"
  shows "trace (snd (write_to_google_sheets env data w)) ! (length (trace w) + 2) =
           SheetUpdate headers rows"
proof -
  have "trace (clear_google_sheet_range env w) =
          trace w @ [SheetClear,
                     Print (case values_clear env of Raises e \<Rightarrow> ClearFailed e
                            | Returns u \<Rightarrow> Cleared)]"
    by (rule trace_clear)
  with assms show ?thesis
    by (simp add: write_to_google_sheets_def nth_append split: outcome.splits)
qed

text \<open>
  C7. In a row of 23 fields, let j be the position of one of the 18 statistics columns
  (5 to 22). Its header is one of \<open>numeric_columns\<close>, and the cell that is written there
  is: the number 3.45 when the row holds the string \<open>"3.45"\<close>; the empty string when the
  row holds the empty string; the empty string when the row holds any non-numeric
  value; and in every case a number or the empty string. The five leading fields are
  written as they are. When the library converts the table so, the body of the update
  call is the header row with the rows converted in this way.
\<close>

theorem numeric_coercion:
  assumes "length row = 23" and "5 \<le> j" and "j < 23"
  shows "headers ! j \<in> set numeric_columns
       \<and> (row ! j = VStr ''3.45'' \<longrightarrow> df_row row ! j = VFloat ''3.45'')
       \<and> (row ! j = VStr [] \<longrightarrow> df_row row ! j = VStr [])
       \<and> (\<not> numeric (row ! j) \<longrightarrow> df_row row ! j = VStr [])
       \<and> (numeric (row ! j) \<longrightarrow> is_number (df_row row ! j))
       \<and> length (df_row row) = 23
       \<and> take 5 (df_row row) = take 5 row
       \<and> (build_service env = Returns u \<and> to_values env data = Returns (df_values data)
            \<longrightarrow> trace (snd (write_to_google_sheets env data w)) ! (length (trace w) + 2) =
                  SheetUpdate headers (map df_row data))"
proof -
  note cell = df_row_stat [OF assms]
  have h: "headers ! j \<in> set numeric_columns"
    using assms(2,3) by (rule stat_header)
  have a: "row ! j = VStr ''3.45'' \<longrightarrow> df_row row ! j = VFloat ''3.45''"
    by (simp add: cell numeral_345 fillna_def)
  have b: "row ! j = VStr [] \<longrightarrow> df_row row ! j = VStr []"
    by (simp add: cell not_numeral_empty fillna_def)
  have c: "\<not> numeric (row ! j) \<longrightarrow> df_row row ! j = VStr []"
    by (simp add: cell fillna_to_numeric)
  have d: "numeric (row ! j) \<longrightarrow> is_number (df_row row ! j)"
    by (cases "row ! j") (simp_all add: cell fillna_def)
  have e: "length (df_row row) = 23"
    using assms(1) by (rule length_df_row)
  have f: "take 5 (df_row row) = take 5 row"
  proof (rule nth_equalityI)
    show "length (take 5 (df_row row)) = length (take 5 row)"
      by (simp add: e assms(1))
  next
    fix i
    assume "i < length (take 5 (df_row row))"
    then have "i < 5"
      by simp
    then show "take 5 (df_row row) ! i = take 5 row ! i"
      by (simp add: df_row_lead [OF assms(1)])
  qed
  have g: "build_service env = Returns u \<and> to_values env data = Returns (df_values data)
            \<longrightarrow> trace (snd (write_to_google_sheets env data w)) ! (length (trace w) + 2) =
                  SheetUpdate headers (map df_row data)"
    by (auto simp: df_values_def dest: write_to_google_sheets_payload)
  from h a b c d e f g show ?thesis
    by blast
qed

theorem numeric_coercion_witness:
  "length row_mixed = 23
   \<and> row_mixed ! 5 = VStr ''3.45'' \<and> df_row row_mixed ! 5 = VFloat ''3.45''
   \<and> row_mixed ! 7 = VStr [] \<and> df_row row_mixed ! 7 = VStr []
   \<and> \<not> numeric (row_mixed ! 14) \<and> df_row row_mixed ! 14 = VStr []
   \<and> numeric (row_mixed ! 13) \<and> is_number (df_row row_mixed ! 13)
   \<and> build_service env_ok = Returns ()
   \<and> to_values env_ok [row_mixed] = Returns (df_values [row_mixed])
   \<and> trace (snd (write_to_google_sheets env_ok [row_mixed] w0)) ! 2 =
       SheetUpdate headers
         [[VInt 745003, VStr ''Seattle Mariners'', VStr ''Texas Rangers'',
           VStr ''Logan Gilbert'', VStr ''Jacob deGrom'',
           VFloat ''3.45'', VFloat ''1.10'', VStr [], VStr [], VStr [], VStr [], VStr [],
           VFloat ''52.1'', VInt 9,
           VStr [], VStr [], VStr [], VStr [], VStr [], VStr [], VStr [],
           VFloat ''0.0'', VInt 0]]"
proof -
  have len: "length row_mixed = 23"
    by (simp add: row_mixed_def)
  have v5: "row_mixed ! 5 = VStr ''3.45''" and v7: "row_mixed ! 7 = VStr []"
    by (simp_all add: row_mixed_def)
  have v14: "\<not> numeric (row_mixed ! 14)"
    by (simp add: row_mixed_def is_numeral_def unsigned_def is_digit_def)
  have v13: "numeric (row_mixed ! 13)"
    by (simp add: row_mixed_def)
  have b: "build_service env_ok = Returns ()"
    by (simp add: env_ok_def)
  have t: "to_values env_ok [row_mixed] = Returns (df_values [row_mixed])"
    by (simp add: env_ok_def)
  have t0: "trace w0 = []"
    by (simp add: w0_def)
  have conv: "df_row row_mixed =
          [VInt 745003, VStr ''Seattle Mariners'', VStr ''Texas Rangers'',
           VStr ''Logan Gilbert'', VStr ''Jacob deGrom'',
           VFloat ''3.45'', VFloat ''1.10'', VStr [], VStr [], VStr [], VStr [], VStr [],
           VFloat ''52.1'', VInt 9,
           VStr [], VStr [], VStr [], VStr [], VStr [], VStr [], VStr [],
           VFloat ''0.0'', VInt 0]"
    by (simp add: df_row_def row_mixed_def headers_def coerce_cell_def numeric_columns_def
          fillna_def is_numeral_def unsigned_def is_digit_def)
  note at5 = numeric_coercion [where row = row_mixed and j = 5 and env = env_ok and u = "()"
                                 and data = "[row_mixed]" and w = w0, OF len]
  from at5 v5 have r5: "df_row row_mixed ! 5 = VFloat ''3.45''"
    by simp
  from at5 b t t0
  have upd: "trace (snd (write_to_google_sheets env_ok [row_mixed] w0)) ! 2 =
               SheetUpdate headers [df_row row_mixed]"
    by (simp add: numeral_2_eq_2)
  from numeric_coercion [where row = row_mixed and j = 7, OF len] v7
  have r7: "df_row row_mixed ! 7 = VStr []"
    by simp
  from numeric_coercion [where row = row_mixed and j = 14, OF len] v14
  have r14: "df_row row_mixed ! 14 = VStr []"
    by simp
  from numeric_coercion [where row = row_mixed and j = 13, OF len] v13
  have r13: "is_number (df_row row_mixed ! 13)"
    by simp
  from upd conv
  have upd': "trace (snd (write_to_google_sheets env_ok [row_mixed] w0)) ! 2 =
       SheetUpdate headers
         [[VInt 745003, VStr ''Seattle Mariners'', VStr ''Texas Rangers'',
           VStr ''Logan Gilbert'', VStr ''Jacob deGrom'',
           VFloat ''3.45'', VFloat ''1.10'', VStr [], VStr [], VStr [], VStr [], VStr [],
           VFloat ''52.1'', VInt 9,
           VStr [], VStr [], VStr [], VStr [], VStr [], VStr [], VStr [],
           VFloat ''0.0'', VInt 0]]"
    by simp
  from len v5 r5 v7 r7 v14 r14 v13 r13 b t upd' show ?thesis
    by blast
qed

end
